theory Spec2Isabelle
  imports Complex_Main "HOL-Library.Sublist"
begin

section \<open>Values, console output and errors\<close>

text \<open>
  SmartHome.py computes with Python numbers: the temperature reading and the clock
  (\<^verbatim>\<open>time.time()\<close>) are floats, the light reading is an int, brightness and target
  temperature are whatever number the caller passes. Numbers are modelled by the real
  number they denote (\<^typ>\<open>real\<close>), the light reading by \<^typ>\<open>int\<close>; Python compares
  ints and floats by value, which is the order of the reals. Rounding error of float
  addition and subtraction is not modelled.

  Every \<^verbatim>\<open>print\<close> of the source is one constructor of \<open>console_line\<close>, carrying the values
  the f-string formats; the figure handed to \<^verbatim>\<open>plt.show()\<close> is a \<open>figure\<close>.
\<close>

datatype py_value = PyFloat real | PyInt int | PyBool bool

datatype console_line =
    StatusChanged string string
  | BrightnessSet string real
  | TargetTemperatureSet string real
  | ReadingSensorData
  | SensorLine string py_value
  | CoolingNeeded real real
  | HeatingNeeded real real
  | TemperatureStable real
  | NoMotionTimeout
  | StartingSystem
  | StoppingSystem
  | GeneratingVisualization
  | SystemIsRunning
  | StoppedGracefully

datatype figure = Figure "real list" "real list" "int list" "int list"

datatype error = TypeError

section \<open>Devices\<close>

record SmartDevice =
  device_id :: string
  name :: string
  status :: string

record SmartLight = SmartDevice +
  brightness :: real

record SmartThermostat = SmartDevice +
  target_temperature :: real

text \<open>\<^verbatim>\<open>SmartDevice.__init__(device_id, name, status="off")\<close> stores its arguments as given.\<close>

definition SmartDevice_init :: "string \<Rightarrow> string \<Rightarrow> string \<Rightarrow> SmartDevice" where
  "SmartDevice_init did nm st = \<lparr>device_id = did, name = nm, status = st\<rparr>"

text \<open>
  The \<^verbatim>\<open>status\<close> property setter: assigns and prints only for \<^verbatim>\<open>"on"\<close> and \<^verbatim>\<open>"off"\<close>.
  The result is the device and what was printed.
\<close>

definition set_status ::
  "string \<Rightarrow> 'a SmartDevice_scheme \<Rightarrow> 'a SmartDevice_scheme \<times> console_line list" where
  "set_status new_status d =
     (if new_status = ''on'' \<or> new_status = ''off''
      then (d\<lparr>status := new_status\<rparr>, [StatusChanged (SmartDevice.name d) new_status])
      else (d, []))"

definition turn_on :: "'a SmartDevice_scheme \<Rightarrow> 'a SmartDevice_scheme \<times> console_line list" where
  "turn_on d = set_status ''on'' d"

definition turn_off :: "'a SmartDevice_scheme \<Rightarrow> 'a SmartDevice_scheme \<times> console_line list" where
  "turn_off d = set_status ''off'' d"

text \<open>
  \<^verbatim>\<open>SmartLight.__init__(device_id, name, brightness=50)\<close> and
  \<^verbatim>\<open>SmartThermostat.__init__(device_id, name, target_temperature=24)\<close> call the base
  constructor without a status, so the status starts as \<^verbatim>\<open>"off"\<close>; the tunable is stored
  as given.
\<close>

definition SmartLight_init :: "string \<Rightarrow> string \<Rightarrow> real \<Rightarrow> SmartLight" where
  "SmartLight_init did nm level =
     SmartDevice.extend (SmartDevice_init did nm ''off'') (SmartLight.fields level)"

definition SmartThermostat_init :: "string \<Rightarrow> string \<Rightarrow> real \<Rightarrow> SmartThermostat" where
  "SmartThermostat_init did nm temp =
     SmartDevice.extend (SmartDevice_init did nm ''off'') (SmartThermostat.fields temp)"

definition set_brightness :: "real \<Rightarrow> SmartLight \<Rightarrow> SmartLight \<times> console_line list" where
  "set_brightness level l =
     (if 0 \<le> level \<and> level \<le> 100
      then (l\<lparr>brightness := level\<rparr>, [BrightnessSet (SmartDevice.name l) level])
      else (l, []))"

definition set_target_temperature ::
  "real \<Rightarrow> SmartThermostat \<Rightarrow> SmartThermostat \<times> console_line list" where
  "set_target_temperature temp t =
     (if 18 \<le> temp \<and> temp \<le> 30
      then (t\<lparr>target_temperature := temp\<rparr>, [TargetTemperatureSet (SmartDevice.name t) temp])
      else (t, []))"

section \<open>Sensors\<close>

text \<open>
  A sensor's \<^verbatim>\<open>value\<close> is \<^verbatim>\<open>None\<close> until the first read. \<^verbatim>\<open>read_value\<close> draws from
  \<^verbatim>\<open>random\<close>; the sample drawn is an argument of the model.
\<close>

record 'v Sensor =
  sensor_id :: string
  name :: string
  "value" :: "'v option"

definition Sensor_init :: "string \<Rightarrow> string \<Rightarrow> 'v Sensor" where
  "Sensor_init sid nm = \<lparr>sensor_id = sid, name = nm, value = None\<rparr>"

definition read_value :: "'v \<Rightarrow> 'v Sensor \<Rightarrow> 'v Sensor" where
  "read_value sample s = s\<lparr>value := Some sample\<rparr>"

text \<open>Python truth value of the motion sensor's value: \<^verbatim>\<open>None\<close> and \<^verbatim>\<open>False\<close> are false.\<close>

fun truthy :: "bool option \<Rightarrow> bool" where
  "truthy None = False"
| "truthy (Some b) = b"

section \<open>The system\<close>

text \<open>
  \<^verbatim>\<open>self.devices\<close> and \<^verbatim>\<open>self.sensors\<close> are dictionaries that \<^verbatim>\<open>initialize_components\<close>
  fills with five fixed keys and nothing changes afterwards; each key is a field here.
  \<open>stdout\<close> is what the process has printed so far and \<open>shown\<close> the figures that
  \<^verbatim>\<open>plt.show()\<close> has displayed, oldest first.
\<close>

record HomeAutomationSystem =
  light_1 :: SmartLight
  thermostat_1 :: SmartThermostat
  temp_sensor_1 :: "real Sensor"
  light_sensor_1 :: "int Sensor"
  motion_sensor_1 :: "bool Sensor"
  running :: bool
  last_motion_time :: real
  start_time :: real
  timestamps :: "real list"
  temp_data :: "real list"
  light_data :: "int list"
  motion_data :: "int list"
  stdout :: "console_line list"
  shown :: "figure list"

text \<open>
  \<^verbatim>\<open>HomeAutomationSystem.__init__\<close> reads the clock twice (\<open>now1\<close> for
  \<^verbatim>\<open>last_motion_time\<close>, then \<open>now2\<close> for \<^verbatim>\<open>start_time\<close>) and calls
  \<^verbatim>\<open>initialize_components\<close>, which builds the devices and sensors with their default
  arguments.
\<close>

definition HomeAutomationSystem_init :: "real \<Rightarrow> real \<Rightarrow> HomeAutomationSystem" where
  "HomeAutomationSystem_init now1 now2 =
     \<lparr>light_1 = SmartLight_init ''light_1'' ''Living Room Light'' 50,
      thermostat_1 = SmartThermostat_init ''thermostat_1'' ''Main Thermostat'' 24,
      temp_sensor_1 = Sensor_init ''temp_sensor_1'' ''Temperature Sensor'',
      light_sensor_1 = Sensor_init ''light_sensor_1'' ''Light Sensor'',
      motion_sensor_1 = Sensor_init ''motion_sensor_1'' ''Motion Sensor'',
      running = False,
      last_motion_time = now1,
      start_time = now2,
      timestamps = [], temp_data = [], light_data = [], motion_data = [],
      stdout = [], shown = []\<rparr>"

definition print_lines :: "console_line list \<Rightarrow> HomeAutomationSystem \<Rightarrow> HomeAutomationSystem" where
  "print_lines ls s = s\<lparr>stdout := stdout s @ ls\<rparr>"

subsection \<open>The rules\<close>

text \<open>
  \<^verbatim>\<open>rule_thermostat_control\<close>. Comparing \<^verbatim>\<open>None\<close> (a sensor never read) with a number
  raises \<^verbatim>\<open>TypeError\<close>.
\<close>

definition rule_thermostat_control :: "HomeAutomationSystem \<Rightarrow> error + HomeAutomationSystem" where
  "rule_thermostat_control s =
     (let thermostat = thermostat_1 s;
          target_temp = target_temperature thermostat
      in case value (temp_sensor_1 s) of
           None \<Rightarrow> Inl TypeError
         | Some current_temp \<Rightarrow>
             if current_temp > target_temp + 1 then
               (let (t', out) = turn_on thermostat
                in Inr (print_lines (CoolingNeeded current_temp target_temp # out)
                          (s\<lparr>thermostat_1 := t'\<rparr>)))
             else if current_temp < target_temp - 1 then
               (let (t', out) = turn_on thermostat
                in Inr (print_lines (HeatingNeeded current_temp target_temp # out)
                          (s\<lparr>thermostat_1 := t'\<rparr>)))
             else
               (let (t', out) = turn_off thermostat
                in Inr (print_lines (TemperatureStable current_temp # out)
                          (s\<lparr>thermostat_1 := t'\<rparr>))))"

text \<open>
  \<^verbatim>\<open>rule_lighting_control\<close>. Either branch reads the clock at most once; \<open>now\<close> is that
  reading. With motion, \<^verbatim>\<open>last_motion_time\<close> is assigned before the light reading is
  compared, and the comparison raises \<^verbatim>\<open>TypeError\<close> on \<^verbatim>\<open>None\<close>.
\<close>

definition rule_lighting_control ::
  "real \<Rightarrow> HomeAutomationSystem \<Rightarrow> error + HomeAutomationSystem" where
  "rule_lighting_control now s =
     (let light = light_1 s in
      if truthy (value (motion_sensor_1 s)) then
        (let s1 = s\<lparr>last_motion_time := now\<rparr>
         in case value (light_sensor_1 s) of
              None \<Rightarrow> Inl TypeError
            | Some lux \<Rightarrow>
                if lux < 200 \<and> status light = ''off'' then
                  (let (l1, out1) = turn_on light;
                       (l2, out2) = set_brightness 70 l1
                   in Inr (print_lines (out1 @ out2) (s1\<lparr>light_1 := l2\<rparr>)))
                else Inr s1)
      else
        if status light = ''on'' \<and> now - last_motion_time s > 30 then
          (let (l1, out1) = turn_off light
           in Inr (print_lines (NoMotionTimeout # out1) (s\<lparr>light_1 := l1\<rparr>)))
        else Inr s)"

subsection \<open>One tick\<close>

text \<open>
  Python's \<^verbatim>\<open>round(x, 2)\<close>: the nearest multiple of 0.01, a tie going to the even one.
\<close>

definition round_half_even :: "real \<Rightarrow> int" where
  "round_half_even x =
     (let f = \<lfloor>x\<rfloor>; d = x - of_int f
      in if d < 1 / 2 then f else if 1 / 2 < d then f + 1 else if even f then f else f + 1)"

definition py_round2 :: "real \<Rightarrow> real" where
  "py_round2 x = of_int (round_half_even (x * 100)) / 100"

text \<open>
  What one call of \<^verbatim>\<open>process_sensor_data\<close> takes from outside: the clock when the tick
  starts, the three samples the sensors draw, and the clock when the lighting rule reads it.
\<close>

record tick_input =
  clock_tick :: real
  temp_sample :: real
  lux_sample :: int
  motion_sample :: bool
  clock_rule :: real

text \<open>
  \<^verbatim>\<open>process_sensor_data\<close>: the sensors are read and printed in the dictionary's insertion
  order (temperature, light, motion), one row is appended to the four series (the values
  appended are the ones just read), then the thermostat rule and the lighting rule run.
\<close>

definition process_sensor_data ::
  "tick_input \<Rightarrow> HomeAutomationSystem \<Rightarrow> error + HomeAutomationSystem" where
  "process_sensor_data inp s =
     (let s0 = print_lines [ReadingSensorData] s;
          current_time = py_round2 (clock_tick inp - start_time s0);
          ts = read_value (temp_sample inp) (temp_sensor_1 s0);
          s1 = print_lines [SensorLine (Sensor.name ts) (PyFloat (temp_sample inp))]
                 (s0\<lparr>temp_sensor_1 := ts\<rparr>);
          ls = read_value (lux_sample inp) (light_sensor_1 s1);
          s2 = print_lines [SensorLine (Sensor.name ls) (PyInt (lux_sample inp))]
                 (s1\<lparr>light_sensor_1 := ls\<rparr>);
          ms = read_value (motion_sample inp) (motion_sensor_1 s2);
          s3 = print_lines [SensorLine (Sensor.name ms) (PyBool (motion_sample inp))]
                 (s2\<lparr>motion_sensor_1 := ms\<rparr>);
          s4 = s3\<lparr>timestamps := timestamps s3 @ [current_time],
                   temp_data := temp_data s3 @ [temp_sample inp],
                   light_data := light_data s3 @ [lux_sample inp],
                   motion_data := motion_data s3 @ [if motion_sample inp then 1 else 0]\<rparr>
      in case rule_thermostat_control s4 of
           Inl e \<Rightarrow> Inl e
         | Inr s5 \<Rightarrow> rule_lighting_control (clock_rule inp) s5)"

subsection \<open>Stopping and plotting\<close>

text \<open>
  \<^verbatim>\<open>plot_data\<close> prints one line and shows one figure of the four series.
  \<^verbatim>\<open>stop_monitoring\<close> clears \<^verbatim>\<open>running\<close>, prints one line and calls \<^verbatim>\<open>plot_data\<close>.
\<close>

definition plot_data :: "HomeAutomationSystem \<Rightarrow> HomeAutomationSystem" where
  "plot_data s =
     (let s1 = print_lines [GeneratingVisualization] s
      in s1\<lparr>shown := shown s1 @
                [Figure (timestamps s1) (temp_data s1) (light_data s1) (motion_data s1)]\<rparr>)"

definition stop_monitoring :: "HomeAutomationSystem \<Rightarrow> HomeAutomationSystem" where
  "stop_monitoring s = plot_data (print_lines [StoppingSystem] (s\<lparr>running := False\<rparr>))"

section \<open>The program: main thread and monitoring thread\<close>

text \<open>
  The script creates the system, starts \<^verbatim>\<open>start_monitoring\<close> on a daemon thread and
  sleeps in the main thread until \<^verbatim>\<open>KeyboardInterrupt\<close>; the handler calls
  \<^verbatim>\<open>stop_monitoring()\<close>, then \<^verbatim>\<open>automation_thread.join()\<close>, then prints.
  The two threads share the system object. A \<open>program\<close> state holds where each thread
  stands and the shared system; a step runs one statement (one call) of one thread, and a
  schedule is the list of steps in the order they happen. A call is one step: statements
  inside \<^verbatim>\<open>process_sensor_data\<close> and \<^verbatim>\<open>stop_monitoring\<close> are not interleaved.
\<close>

datatype main_pc = M_start_thread | M_print_running | M_wait | M_stop_monitoring | M_join
  | M_print_stopped | M_done

datatype loop_pc = L_not_started | L_print_starting | L_set_running | L_while | L_process
  | L_sleep | L_exited | L_raised error

record program =
  main_at :: main_pc
  loop_at :: loop_pc
  system :: HomeAutomationSystem

datatype action = MainStep | KeyboardInterrupt | LoopStep | LoopTick tick_input

definition program_init :: "real \<Rightarrow> real \<Rightarrow> program" where
  "program_init now1 now2 =
     \<lparr>main_at = M_start_thread, loop_at = L_not_started,
      system = HomeAutomationSystem_init now1 now2\<rparr>"

text \<open>
  The main thread: start the thread, print, sleep one second at a time, and in the handler
  \<^verbatim>\<open>stop_monitoring()\<close>, \<^verbatim>\<open>join()\<close> (which waits until the monitoring thread has
  ended), print. A step that cannot run yet is \<open>None\<close>.
\<close>

fun main_step :: "program \<Rightarrow> program option" where
  "main_step c =
     (case main_at c of
        M_start_thread \<Rightarrow> Some (c\<lparr>main_at := M_print_running, loop_at := L_print_starting\<rparr>)
      | M_print_running \<Rightarrow>
          Some (c\<lparr>main_at := M_wait, system := print_lines [SystemIsRunning] (system c)\<rparr>)
      | M_wait \<Rightarrow> Some c
      | M_stop_monitoring \<Rightarrow>
          Some (c\<lparr>main_at := M_join, system := stop_monitoring (system c)\<rparr>)
      | M_join \<Rightarrow>
          (case loop_at c of
             L_exited \<Rightarrow> Some (c\<lparr>main_at := M_print_stopped\<rparr>)
           | L_raised e \<Rightarrow> Some (c\<lparr>main_at := M_print_stopped\<rparr>)
           | _ \<Rightarrow> None)
      | M_print_stopped \<Rightarrow>
          Some (c\<lparr>main_at := M_done, system := print_lines [StoppedGracefully] (system c)\<rparr>)
      | M_done \<Rightarrow> None)"

text \<open>\<^verbatim>\<open>KeyboardInterrupt\<close> inside the \<^verbatim>\<open>try\<close> block takes the main thread to the handler.\<close>

fun keyboard_interrupt :: "program \<Rightarrow> program option" where
  "keyboard_interrupt c =
     (case main_at c of
        M_print_running \<Rightarrow> Some (c\<lparr>main_at := M_stop_monitoring\<rparr>)
      | M_wait \<Rightarrow> Some (c\<lparr>main_at := M_stop_monitoring\<rparr>)
      | _ \<Rightarrow> None)"

text \<open>
  \<^verbatim>\<open>start_monitoring\<close>, statement by statement: print, \<^verbatim>\<open>self.running = True\<close>, then
  \<^verbatim>\<open>while self.running: self.process_sensor_data(); time.sleep(interval)\<close>. The step
  that calls \<^verbatim>\<open>process_sensor_data\<close> takes the tick's input. The thread is a daemon: it
  runs no step once the main thread is done.
\<close>

fun start_monitoring_step :: "tick_input option \<Rightarrow> program \<Rightarrow> program option" where
  "start_monitoring_step inp c =
     (if main_at c = M_done then None else
      case (loop_at c, inp) of
        (L_print_starting, None) \<Rightarrow>
          Some (c\<lparr>loop_at := L_set_running, system := print_lines [StartingSystem] (system c)\<rparr>)
      | (L_set_running, None) \<Rightarrow>
          Some (c\<lparr>loop_at := L_while, system := (system c)\<lparr>running := True\<rparr>\<rparr>)
      | (L_while, None) \<Rightarrow>
          Some (c\<lparr>loop_at := (if running (system c) then L_process else L_exited)\<rparr>)
      | (L_process, Some i) \<Rightarrow>
          (case process_sensor_data i (system c) of
             Inl e \<Rightarrow> Some (c\<lparr>loop_at := L_raised e\<rparr>)
           | Inr s' \<Rightarrow> Some (c\<lparr>loop_at := L_sleep, system := s'\<rparr>))
      | (L_sleep, None) \<Rightarrow> Some (c\<lparr>loop_at := L_while\<rparr>)
      | _ \<Rightarrow> None)"

fun step :: "action \<Rightarrow> program \<Rightarrow> program option" where
  "step MainStep c = main_step c"
| "step KeyboardInterrupt c = keyboard_interrupt c"
| "step LoopStep c = start_monitoring_step None c"
| "step (LoopTick inp) c = start_monitoring_step (Some inp) c"

fun run :: "action list \<Rightarrow> program \<Rightarrow> program option" where
  "run [] c = Some c"
| "run (a # as) c = (case step a c of None \<Rightarrow> None | Some c' \<Rightarrow> run as c')"

text \<open>The inputs of the ticks a schedule executes, in order.\<close>

fun ticks_of :: "action list \<Rightarrow> tick_input list" where
  "ticks_of [] = []"
| "ticks_of (LoopTick inp # as) = inp # ticks_of as"
| "ticks_of (a # as) = ticks_of as"

section \<open>Predicates and concrete instances\<close>

definition status_ok :: "'a SmartDevice_scheme \<Rightarrow> bool" where
  "status_ok d = (status d = ''on'' \<or> status d = ''off'')"

definition devices_ok :: "HomeAutomationSystem \<Rightarrow> bool" where
  "devices_ok s = (status_ok (light_1 s) \<and> status_ok (thermostat_1 s))"

text \<open>
  \<open>after_reading inp s\<close> is the state \<^verbatim>\<open>process_sensor_data\<close> hands to the two rules:
  sensors read, four lines printed, one row appended.
\<close>

definition after_reading :: "tick_input \<Rightarrow> HomeAutomationSystem \<Rightarrow> HomeAutomationSystem" where
  "after_reading inp s =
     s\<lparr>temp_sensor_1 := (temp_sensor_1 s)\<lparr>value := Some (temp_sample inp)\<rparr>,
       light_sensor_1 := (light_sensor_1 s)\<lparr>value := Some (lux_sample inp)\<rparr>,
       motion_sensor_1 := (motion_sensor_1 s)\<lparr>value := Some (motion_sample inp)\<rparr>,
       stdout := stdout s @
         [ReadingSensorData,
          SensorLine (Sensor.name (temp_sensor_1 s)) (PyFloat (temp_sample inp)),
          SensorLine (Sensor.name (light_sensor_1 s)) (PyInt (lux_sample inp)),
          SensorLine (Sensor.name (motion_sensor_1 s)) (PyBool (motion_sample inp))],
       timestamps := timestamps s @ [py_round2 (clock_tick inp - start_time s)],
       temp_data := temp_data s @ [temp_sample inp],
       light_data := light_data s @ [lux_sample inp],
       motion_data := motion_data s @ [if motion_sample inp then 1 else 0]\<rparr>"

text \<open>What the main thread's position says about the shutdown, for a schedule run so far.\<close>

definition shutdown_inv :: "action list \<Rightarrow> program \<Rightarrow> bool" where
  "shutdown_inv sched c =
     (length (shown (system c)) = (if main_at c \<in> {M_join, M_print_stopped, M_done} then 1 else 0)
      \<and> count_list sched KeyboardInterrupt =
          (if main_at c \<in> {M_start_thread, M_print_running, M_wait} then 0 else 1)
      \<and> (main_at c \<in> {M_print_stopped, M_done} \<longrightarrow> loop_at c = L_exited)
      \<and> (\<forall>e. loop_at c \<noteq> L_raised e))"

text \<open>
  A system whose sensors have read \<open>t\<close>, \<open>lux\<close> and \<open>m\<close>, and three ticks five and
  thirty-one seconds apart, for the concrete instances below.
\<close>

definition sensed :: "real \<Rightarrow> int \<Rightarrow> bool \<Rightarrow> HomeAutomationSystem \<Rightarrow> HomeAutomationSystem" where
  "sensed t lux m s =
     s\<lparr>temp_sensor_1 := read_value t (temp_sensor_1 s),
       light_sensor_1 := read_value lux (light_sensor_1 s),
       motion_sensor_1 := read_value m (motion_sensor_1 s)\<rparr>"

definition tick_a :: tick_input where
  "tick_a = \<lparr>clock_tick = 100, temp_sample = 26, lux_sample = 180, motion_sample = True,
             clock_rule = 100\<rparr>"

definition tick_b :: tick_input where
  "tick_b = \<lparr>clock_tick = 105, temp_sample = 24.5, lux_sample = 300, motion_sample = False,
             clock_rule = 105\<rparr>"

definition tick_c :: tick_input where
  "tick_c = \<lparr>clock_tick = 131, temp_sample = 24.5, lux_sample = 300, motion_sample = False,
             clock_rule = 131\<rparr>"

section \<open>Devices: what the setters and the rules compute\<close>

lemmas fixture_defs =
  sensed_def read_value_def HomeAutomationSystem_init_def SmartThermostat_init_def
  SmartLight_init_def SmartDevice_init_def Sensor_init_def SmartDevice.extend_def
  SmartLight.fields_def SmartThermostat.fields_def

lemma turn_on_eq:
  "turn_on d = (d\<lparr>status := ''on''\<rparr>, [StatusChanged (SmartDevice.name d) ''on''])"
  by (simp add: turn_on_def set_status_def)

lemma turn_off_eq:
  "turn_off d = (d\<lparr>status := ''off''\<rparr>, [StatusChanged (SmartDevice.name d) ''off''])"
  by (simp add: turn_off_def set_status_def)

lemma set_brightness_70:
  "set_brightness 70 l = (l\<lparr>brightness := 70\<rparr>, [BrightnessSet (SmartDevice.name l) 70])"
  by (simp add: set_brightness_def)

lemma rule_thermostat_control_Some:
  assumes "value (temp_sensor_1 s) = Some t"
  shows "rule_thermostat_control s =
    Inr (s\<lparr>thermostat_1 := (thermostat_1 s)\<lparr>status :=
              (if t > target_temperature (thermostat_1 s) + 1
                  \<or> t < target_temperature (thermostat_1 s) - 1
               then ''on'' else ''off'')\<rparr>,
           stdout := stdout s @
             [if t > target_temperature (thermostat_1 s) + 1
              then CoolingNeeded t (target_temperature (thermostat_1 s))
              else if t < target_temperature (thermostat_1 s) - 1
              then HeatingNeeded t (target_temperature (thermostat_1 s))
              else TemperatureStable t,
              StatusChanged (SmartDevice.name (thermostat_1 s))
                (if t > target_temperature (thermostat_1 s) + 1
                    \<or> t < target_temperature (thermostat_1 s) - 1
                 then ''on'' else ''off'')]\<rparr>)"
  using assms
  by (simp add: rule_thermostat_control_def Let_def turn_on_eq turn_off_eq print_lines_def)

lemma rule_lighting_control_motion:
  assumes "value (motion_sensor_1 s) = Some True" and "value (light_sensor_1 s) = Some lux"
  shows "rule_lighting_control now s =
    Inr (if lux < 200 \<and> status (light_1 s) = ''off''
         then s\<lparr>last_motion_time := now,
                light_1 := (light_1 s)\<lparr>status := ''on'', brightness := 70\<rparr>,
                stdout := stdout s @ [StatusChanged (SmartDevice.name (light_1 s)) ''on'',
                                      BrightnessSet (SmartDevice.name (light_1 s)) 70]\<rparr>
         else s\<lparr>last_motion_time := now\<rparr>)"
  using assms
  by (simp add: rule_lighting_control_def Let_def turn_on_eq set_brightness_70 print_lines_def)

lemma rule_lighting_control_no_motion:
  assumes "\<not> truthy (value (motion_sensor_1 s))"
  shows "rule_lighting_control now s =
    Inr (if status (light_1 s) = ''on'' \<and> now - last_motion_time s > 30
         then s\<lparr>light_1 := (light_1 s)\<lparr>status := ''off''\<rparr>,
                stdout := stdout s @ [NoMotionTimeout,
                                      StatusChanged (SmartDevice.name (light_1 s)) ''off'']\<rparr>
         else s)"
  using assms
  by (simp add: rule_lighting_control_def Let_def turn_off_eq print_lines_def)

text \<open>
  C1. With the temperature sensor reading \<open>t\<close> and the thermostat's target \<open>target\<close>, the
  thermostat rule returns normally and leaves the thermostat on when \<open>t > target + 1\<close>, on
  when \<open>t < target - 1\<close>, and off otherwise; at \<open>t = target + 1\<close> and at
  \<open>t = target - 1\<close> it is off.
\<close>

theorem thermostat_rule_branches:
  assumes "value (temp_sensor_1 s) = Some t"
    and "target_temperature (thermostat_1 s) = target"
  shows "\<exists>s'. rule_thermostat_control s = Inr s'
           \<and> (t > target + 1 \<longrightarrow> status (thermostat_1 s') = ''on'')
           \<and> (t < target - 1 \<longrightarrow> status (thermostat_1 s') = ''on'')
           \<and> (\<not> t > target + 1 \<and> \<not> t < target - 1 \<longrightarrow> status (thermostat_1 s') = ''off'')
           \<and> (t = target + 1 \<or> t = target - 1 \<longrightarrow> status (thermostat_1 s') = ''off'')"
  using assms by (auto simp: rule_thermostat_control_Some)

theorem thermostat_rule_branches_witness:
  "(\<exists>s'. rule_thermostat_control (sensed 26 150 True (HomeAutomationSystem_init 0 0)) = Inr s'
        \<and> status (thermostat_1 s') = ''on'')
   \<and> (\<exists>s'. rule_thermostat_control (sensed 22 150 True (HomeAutomationSystem_init 0 0)) = Inr s'
        \<and> status (thermostat_1 s') = ''on'')
   \<and> (\<exists>s'. rule_thermostat_control (sensed 24.5 150 True (HomeAutomationSystem_init 0 0)) = Inr s'
        \<and> status (thermostat_1 s') = ''off'')
   \<and> (\<exists>s'. rule_thermostat_control (sensed 25 150 True (HomeAutomationSystem_init 0 0)) = Inr s'
        \<and> status (thermostat_1 s') = ''off'')
   \<and> (\<exists>s'. rule_thermostat_control (sensed 23 150 True (HomeAutomationSystem_init 0 0)) = Inr s'
        \<and> status (thermostat_1 s') = ''off'')"
proof -
  have tgt: "target_temperature (thermostat_1 (sensed t l m (HomeAutomationSystem_init 0 0))) = 24"
    for t l m by (simp add: fixture_defs)
  have rd: "value (temp_sensor_1 (sensed t l m (HomeAutomationSystem_init 0 0))) = Some t"
    for t l m by (simp add: fixture_defs)
  show ?thesis
    using thermostat_rule_branches [OF rd tgt, of 26 150 True]
      thermostat_rule_branches [OF rd tgt, of 22 150 True]
      thermostat_rule_branches [OF rd tgt, of "24.5" 150 True]
      thermostat_rule_branches [OF rd tgt, of 25 150 True]
      thermostat_rule_branches [OF rd tgt, of 23 150 True]
    by simp
qed

text \<open>
  C2. With the motion sensor reading true and the light sensor reading \<open>lux\<close>, the lighting
  rule returns normally with \<^verbatim>\<open>last_motion_time\<close> set to the current time; if
  \<open>lux < 200\<close> and the light is off, the light is then on with brightness 70; if
  \<open>lux \<ge> 200\<close> or the light is already on, the light is unchanged.
\<close>

theorem lighting_rule_motion:
  assumes "value (motion_sensor_1 s) = Some True" and "value (light_sensor_1 s) = Some lux"
  shows "\<exists>s'. rule_lighting_control now s = Inr s'
           \<and> last_motion_time s' = now
           \<and> (lux < 200 \<and> status (light_1 s) = ''off''
                \<longrightarrow> status (light_1 s') = ''on'' \<and> brightness (light_1 s') = 70)
           \<and> (lux \<ge> 200 \<or> status (light_1 s) = ''on''
                \<longrightarrow> status (light_1 s') = status (light_1 s)
                    \<and> brightness (light_1 s') = brightness (light_1 s)
                    \<and> light_1 s' = light_1 s)"
  by (auto simp: rule_lighting_control_motion [OF assms])

theorem lighting_rule_motion_witness:
  "(\<exists>s'. rule_lighting_control 12 (sensed 26 150 True (HomeAutomationSystem_init 0 0)) = Inr s'
        \<and> last_motion_time s' = 12 \<and> status (light_1 s') = ''on'' \<and> brightness (light_1 s') = 70)
   \<and> (\<exists>s'. rule_lighting_control 12 (sensed 26 250 True (HomeAutomationSystem_init 0 0)) = Inr s'
        \<and> last_motion_time s' = 12 \<and> status (light_1 s') = ''off'' \<and> brightness (light_1 s') = 50)"
proof -
  have m: "value (motion_sensor_1 (sensed t l True (HomeAutomationSystem_init 0 0))) = Some True"
    for t l by (simp add: fixture_defs)
  have l: "value (light_sensor_1 (sensed t l True (HomeAutomationSystem_init 0 0))) = Some l"
    for t l by (simp add: fixture_defs)
  have st: "status (light_1 (sensed t l True (HomeAutomationSystem_init 0 0))) = ''off''"
    "brightness (light_1 (sensed t l True (HomeAutomationSystem_init 0 0))) = 50"
    for t l by (simp_all add: fixture_defs)
  show ?thesis
    using lighting_rule_motion [where now = 12, OF m [of 26 150] l [of 26 150]]
      lighting_rule_motion [where now = 12, OF m [of 26 250] l [of 26 250]]
    by (auto simp: st)
qed

text \<open>
  C3. With the motion sensor reading false (or never read), the lighting rule returns
  normally and leaves \<^verbatim>\<open>last_motion_time\<close> alone; if the light is on and more than 30
  seconds have passed since \<^verbatim>\<open>last_motion_time\<close>, the light is turned off and nothing
  else about it changes; if at most 30 seconds have passed, or the light is off, the whole
  state is unchanged. The light's status changes exactly in the first case.
\<close>

theorem lighting_rule_no_motion:
  assumes "\<not> truthy (value (motion_sensor_1 s))"
  shows "\<exists>s'. rule_lighting_control now s = Inr s'
           \<and> last_motion_time s' = last_motion_time s
           \<and> (status (light_1 s) = ''on'' \<and> now - last_motion_time s > 30
                \<longrightarrow> light_1 s' = (light_1 s)\<lparr>status := ''off''\<rparr>)
           \<and> (now - last_motion_time s \<le> 30 \<or> status (light_1 s) = ''off''
                \<longrightarrow> s' = s)
           \<and> (status (light_1 s') \<noteq> status (light_1 s)
                \<longleftrightarrow> status (light_1 s) = ''on'' \<and> now - last_motion_time s > 30)"
  by (auto simp: rule_lighting_control_no_motion [OF assms])

theorem lighting_rule_no_motion_witness:
  "(\<exists>s'. rule_lighting_control 31
           (sensed 24.5 300 False ((HomeAutomationSystem_init 0 0)
              \<lparr>light_1 := fst (turn_on (light_1 (HomeAutomationSystem_init 0 0)))\<rparr>)) = Inr s'
        \<and> status (light_1 s') = ''off'')
   \<and> (\<exists>s'. rule_lighting_control 10
           (sensed 24.5 300 False ((HomeAutomationSystem_init 0 0)
              \<lparr>light_1 := fst (turn_on (light_1 (HomeAutomationSystem_init 0 0)))\<rparr>)) = Inr s'
        \<and> status (light_1 s') = ''on'')
   \<and> (\<exists>s'. rule_lighting_control 30
           (sensed 24.5 300 False ((HomeAutomationSystem_init 0 0)
              \<lparr>light_1 := fst (turn_on (light_1 (HomeAutomationSystem_init 0 0)))\<rparr>)) = Inr s'
        \<and> status (light_1 s') = ''on'')
   \<and> (\<exists>s'. rule_lighting_control 31
           (sensed 24.5 300 False (HomeAutomationSystem_init 0 0)) = Inr s'
        \<and> status (light_1 s') = ''off'' \<and> stdout s' = [])"
proof -
  let ?on = "sensed 24.5 300 False ((HomeAutomationSystem_init 0 0)
              \<lparr>light_1 := fst (turn_on (light_1 (HomeAutomationSystem_init 0 0)))\<rparr>)"
  let ?off = "sensed 24.5 300 False (HomeAutomationSystem_init 0 0)"
  have m: "\<not> truthy (value (motion_sensor_1 ?on))" "\<not> truthy (value (motion_sensor_1 ?off))"
    by (simp_all add: fixture_defs)
  have on: "status (light_1 ?on) = ''on''" "last_motion_time ?on = 0"
    by (simp_all add: fixture_defs turn_on_eq)
  have off: "status (light_1 ?off) = ''off''" "last_motion_time ?off = 0" "stdout ?off = []"
    by (simp_all add: fixture_defs)
  have "\<exists>s'. rule_lighting_control 31 ?on = Inr s'
          \<and> light_1 s' = (light_1 ?on)\<lparr>status := ''off''\<rparr>"
    using lighting_rule_no_motion [OF m(1), of 31] unfolding on by simp blast
  then have A: "\<exists>s'. rule_lighting_control 31 ?on = Inr s' \<and> status (light_1 s') = ''off''"
    by (elim exE conjE) simp
  have "rule_lighting_control 10 ?on = Inr ?on"
    using lighting_rule_no_motion [OF m(1), of 10] unfolding on by simp
  then have B: "\<exists>s'. rule_lighting_control 10 ?on = Inr s' \<and> status (light_1 s') = ''on''"
    using on(1) by simp
  have "rule_lighting_control 30 ?on = Inr ?on"
    using lighting_rule_no_motion [OF m(1), of 30] unfolding on by simp
  then have C: "\<exists>s'. rule_lighting_control 30 ?on = Inr s' \<and> status (light_1 s') = ''on''"
    using on(1) by simp
  have "rule_lighting_control 31 ?off = Inr ?off"
    using lighting_rule_no_motion [OF m(2), of 31] unfolding off by simp
  then have D: "\<exists>s'. rule_lighting_control 31 ?off = Inr s' \<and> status (light_1 s') = ''off''
                  \<and> stdout s' = []"
    using off by simp
  from A B C D show ?thesis by blast
qed

text \<open>
  C4. \<^verbatim>\<open>set_brightness(b)\<close> assigns \<open>b\<close> to the brightness (and prints) when
  \<open>0 \<le> b \<le> 100\<close> and otherwise returns the light as it was, printing nothing; it assigns
  if and only if \<open>0 \<le> b \<le> 100\<close>. \<^verbatim>\<open>set_target_temperature(t)\<close> does the same for
  \<open>18 \<le> t \<le> 30\<close>. Neither has an error result.
\<close>

theorem setters_validate_domain:
  "(0 \<le> b \<and> b \<le> 100 \<longrightarrow>
      set_brightness b l = (l\<lparr>brightness := b\<rparr>, [BrightnessSet (SmartDevice.name l) b]))
   \<and> (\<not> (0 \<le> b \<and> b \<le> 100) \<longrightarrow> set_brightness b l = (l, []))
   \<and> (snd (set_brightness b l) \<noteq> [] \<longleftrightarrow> 0 \<le> b \<and> b \<le> 100)
   \<and> (18 \<le> t \<and> t \<le> 30 \<longrightarrow>
      set_target_temperature t th =
        (th\<lparr>target_temperature := t\<rparr>, [TargetTemperatureSet (SmartDevice.name th) t]))
   \<and> (\<not> (18 \<le> t \<and> t \<le> 30) \<longrightarrow> set_target_temperature t th = (th, []))
   \<and> (snd (set_target_temperature t th) \<noteq> [] \<longleftrightarrow> 18 \<le> t \<and> t \<le> 30)"
  by (simp add: set_brightness_def set_target_temperature_def)

theorem setters_validate_domain_witness:
  "brightness (fst (set_brightness 70 (SmartLight_init ''light_1'' ''Living Room Light'' 50))) = 70
   \<and> set_brightness 101 (SmartLight_init ''light_1'' ''Living Room Light'' 50)
       = (SmartLight_init ''light_1'' ''Living Room Light'' 50, [])
   \<and> set_brightness (- 1) (SmartLight_init ''light_1'' ''Living Room Light'' 50)
       = (SmartLight_init ''light_1'' ''Living Room Light'' 50, [])
   \<and> target_temperature
        (fst (set_target_temperature 18
               (SmartThermostat_init ''thermostat_1'' ''Main Thermostat'' 24))) = 18
   \<and> set_target_temperature 17.5 (SmartThermostat_init ''thermostat_1'' ''Main Thermostat'' 24)
       = (SmartThermostat_init ''thermostat_1'' ''Main Thermostat'' 24, [])
   \<and> set_target_temperature 31 (SmartThermostat_init ''thermostat_1'' ''Main Thermostat'' 24)
       = (SmartThermostat_init ''thermostat_1'' ''Main Thermostat'' 24, [])"
  using setters_validate_domain [of 70 "SmartLight_init ''light_1'' ''Living Room Light'' 50"
          18 "SmartThermostat_init ''thermostat_1'' ''Main Thermostat'' 24"]
    setters_validate_domain [of 101 "SmartLight_init ''light_1'' ''Living Room Light'' 50"
          "17.5" "SmartThermostat_init ''thermostat_1'' ''Main Thermostat'' 24"]
    setters_validate_domain [of "- 1" "SmartLight_init ''light_1'' ''Living Room Light'' 50"
          31 "SmartThermostat_init ''thermostat_1'' ''Main Thermostat'' 24"]
  by simp

text \<open>
  C8. The thermostat's status after the rule depends only on the temperature reading and
  the target: two systems that agree on both end with the same status, whatever else
  differs. Running the rule a second time on its own result returns normally and changes
  neither the thermostat nor anything else but what is printed.
\<close>

theorem thermostat_rule_pure_idempotent:
  assumes "value (temp_sensor_1 a) = Some t" and "value (temp_sensor_1 b) = Some t"
    and "target_temperature (thermostat_1 a) = target_temperature (thermostat_1 b)"
  shows "\<exists>a' b' a''. rule_thermostat_control a = Inr a' \<and> rule_thermostat_control b = Inr b'
           \<and> status (thermostat_1 a') = status (thermostat_1 b')
           \<and> rule_thermostat_control a' = Inr a''
           \<and> status (thermostat_1 a'') = status (thermostat_1 a')
           \<and> thermostat_1 a'' = thermostat_1 a'
           \<and> a''\<lparr>stdout := []\<rparr> = a'\<lparr>stdout := []\<rparr>"
proof -
  obtain a' where a': "rule_thermostat_control a = Inr a'"
    by (simp add: rule_thermostat_control_Some [OF assms(1)])
  obtain b' where b': "rule_thermostat_control b = Inr b'"
    by (simp add: rule_thermostat_control_Some [OF assms(2)])
  have v: "value (temp_sensor_1 a') = Some t"
    and tg: "target_temperature (thermostat_1 a') = target_temperature (thermostat_1 a)"
    using a' by (auto simp: rule_thermostat_control_Some [OF assms(1)] assms(1))
  obtain a'' where a'': "rule_thermostat_control a' = Inr a''"
    by (simp add: rule_thermostat_control_Some [OF v])
  have 1: "status (thermostat_1 a') = status (thermostat_1 b')"
    using a' b' assms(3) by (auto simp: rule_thermostat_control_Some [OF assms(1)]
        rule_thermostat_control_Some [OF assms(2)])
  have 2: "thermostat_1 a'' = thermostat_1 a'"
    using a' a'' unfolding rule_thermostat_control_Some [OF v] tg
    by (auto simp: rule_thermostat_control_Some [OF assms(1)])
  have 3: "a''\<lparr>stdout := []\<rparr> = a'\<lparr>stdout := []\<rparr>"
    using a'' 2 unfolding rule_thermostat_control_Some [OF v]
    by auto
  show ?thesis using a' b' a'' 1 2 3 by simp
qed

theorem thermostat_rule_pure_idempotent_witness:
  "\<exists>a' b' a''.
      rule_thermostat_control (sensed 26 150 True (HomeAutomationSystem_init 0 0)) = Inr a'
    \<and> rule_thermostat_control (sensed 26 400 False (HomeAutomationSystem_init 3 7)) = Inr b'
    \<and> status (thermostat_1 a') = status (thermostat_1 b')
    \<and> rule_thermostat_control a' = Inr a''
    \<and> status (thermostat_1 a'') = status (thermostat_1 a')
    \<and> thermostat_1 a'' = thermostat_1 a'
    \<and> a''\<lparr>stdout := []\<rparr> = a'\<lparr>stdout := []\<rparr>"
proof -
  have 1: "value (temp_sensor_1 (sensed 26 150 True (HomeAutomationSystem_init 0 0))) = Some 26"
    and 2: "value (temp_sensor_1 (sensed 26 400 False (HomeAutomationSystem_init 3 7))) = Some 26"
    and 3: "target_temperature (thermostat_1 (sensed 26 150 True (HomeAutomationSystem_init 0 0)))
          = target_temperature (thermostat_1 (sensed 26 400 False (HomeAutomationSystem_init 3 7)))"
    by (simp_all add: fixture_defs)
  show ?thesis by (rule thermostat_rule_pure_idempotent [OF 1 2 3])
qed

text \<open>
  C10. The constructors store the tunable they are given, whatever it is, and start the
  device off: a light built with brightness \<open>level\<close> has brightness \<open>level\<close>, a thermostat
  built with target \<open>temp\<close> has target \<open>temp\<close>. The setters are where the ranges are
  checked: a value outside its range that a constructor accepts is ignored by the setter.
\<close>

theorem constructors_store_unvalidated:
  "brightness (SmartLight_init did nm level) = level
   \<and> status (SmartLight_init did nm level) = ''off''
   \<and> target_temperature (SmartThermostat_init did nm temp) = temp
   \<and> status (SmartThermostat_init did nm temp) = ''off''
   \<and> (\<not> (0 \<le> level \<and> level \<le> 100) \<longrightarrow>
        brightness (fst (set_brightness level l)) = brightness l)
   \<and> (\<not> (18 \<le> temp \<and> temp \<le> 30) \<longrightarrow>
        target_temperature (fst (set_target_temperature temp th)) = target_temperature th)"
  by (simp add: fixture_defs set_brightness_def set_target_temperature_def)

theorem constructors_store_unvalidated_witness:
  "brightness (SmartLight_init ''light_1'' ''Living Room Light'' 150) = 150
   \<and> brightness (SmartLight_init ''light_1'' ''Living Room Light'' (- 5)) = - 5
   \<and> target_temperature (SmartThermostat_init ''thermostat_1'' ''Main Thermostat'' 45) = 45
   \<and> brightness (fst (set_brightness 150
          (SmartLight_init ''light_1'' ''Living Room Light'' 50))) = 50
   \<and> target_temperature (fst (set_target_temperature 45
          (SmartThermostat_init ''thermostat_1'' ''Main Thermostat'' 24))) = 24"
proof -
  have b: "brightness (SmartLight_init ''light_1'' ''Living Room Light'' 50) = 50"
    and t: "target_temperature (SmartThermostat_init ''thermostat_1'' ''Main Thermostat'' 24) = 24"
    by (simp_all add: fixture_defs)
  show ?thesis
    using constructors_store_unvalidated [of "''light_1''" "''Living Room Light''" 150 45
        "SmartLight_init ''light_1'' ''Living Room Light'' 50"
        "SmartThermostat_init ''thermostat_1'' ''Main Thermostat'' 24"]
      constructors_store_unvalidated [of "''light_1''" "''Living Room Light''" "- 5" 45
        "SmartLight_init ''light_1'' ''Living Room Light'' 50"
        "SmartThermostat_init ''thermostat_1'' ''Main Thermostat'' 24"]
      constructors_store_unvalidated [of "''thermostat_1''" "''Main Thermostat''" 150 45
        "SmartLight_init ''light_1'' ''Living Room Light'' 50"
        "SmartThermostat_init ''thermostat_1'' ''Main Thermostat'' 24"]
    by (simp add: b t)
qed

section \<open>One tick: what the rules and the tick leave alone\<close>

lemma rule_thermostat_control_cases:
  "rule_thermostat_control s = Inl TypeError \<and> value (temp_sensor_1 s) = None
   \<or> (\<exists>st. (st = ''on'' \<or> st = ''off'') \<and> (\<exists>ls.
         rule_thermostat_control s =
           Inr (s\<lparr>thermostat_1 := (thermostat_1 s)\<lparr>status := st\<rparr>, stdout := stdout s @ ls\<rparr>)))"
proof (cases "value (temp_sensor_1 s)")
  case None
  then show ?thesis by (simp add: rule_thermostat_control_def)
next
  case (Some t)
  show ?thesis unfolding rule_thermostat_control_Some [OF Some] by auto
qed

lemma rule_lighting_control_cases:
  "rule_lighting_control now s = Inl TypeError
   \<or> (\<exists>l lmt ls. (l = light_1 s \<or> l = (light_1 s)\<lparr>status := ''off''\<rparr>
                      \<or> l = (light_1 s)\<lparr>status := ''on'', brightness := 70\<rparr>)
         \<and> (lmt = now \<or> lmt = last_motion_time s)
         \<and> rule_lighting_control now s =
             Inr (s\<lparr>light_1 := l, last_motion_time := lmt, stdout := stdout s @ ls\<rparr>))"
proof (cases "truthy (value (motion_sensor_1 s))")
  case False
  show ?thesis
  proof (cases "status (light_1 s) = ''on'' \<and> now - last_motion_time s > 30")
    case True
    then have "rule_lighting_control now s =
        Inr (s\<lparr>light_1 := (light_1 s)\<lparr>status := ''off''\<rparr>,
               last_motion_time := last_motion_time s,
               stdout := stdout s @ [NoMotionTimeout,
                 StatusChanged (SmartDevice.name (light_1 s)) ''off'']\<rparr>)"
      by (simp add: rule_lighting_control_no_motion [OF False])
    then show ?thesis by blast
  next
    case F: False
    then have "rule_lighting_control now s =
        Inr (s\<lparr>light_1 := light_1 s, last_motion_time := last_motion_time s,
               stdout := stdout s @ []\<rparr>)"
      by (simp add: rule_lighting_control_no_motion [OF False])
    then show ?thesis by blast
  qed
next
  case True
  then have m: "value (motion_sensor_1 s) = Some True"
    by (cases "value (motion_sensor_1 s)") auto
  show ?thesis
  proof (cases "value (light_sensor_1 s)")
    case None
    then show ?thesis using True by (simp add: rule_lighting_control_def Let_def)
  next
    case (Some lux)
    show ?thesis
    proof (cases "lux < 200 \<and> status (light_1 s) = ''off''")
      case T: True
      then have "rule_lighting_control now s =
        Inr (s\<lparr>light_1 := (light_1 s)\<lparr>status := ''on'', brightness := 70\<rparr>,
               last_motion_time := now,
               stdout := stdout s @ [StatusChanged (SmartDevice.name (light_1 s)) ''on'',
                                      BrightnessSet (SmartDevice.name (light_1 s)) 70]\<rparr>)"
        by (simp add: rule_lighting_control_motion [OF m Some])
      then show ?thesis by blast
    next
      case F: False
      then have "rule_lighting_control now s =
        Inr (s\<lparr>light_1 := light_1 s, last_motion_time := now, stdout := stdout s @ []\<rparr>)"
        by (auto simp: rule_lighting_control_motion [OF m Some])
      then show ?thesis by blast
    qed
  qed
qed

lemma rule_thermostat_control_frame:
  assumes "rule_thermostat_control s = Inr s'"
  shows "light_1 s' = light_1 s" "temp_sensor_1 s' = temp_sensor_1 s"
    "light_sensor_1 s' = light_sensor_1 s" "motion_sensor_1 s' = motion_sensor_1 s"
    "running s' = running s" "last_motion_time s' = last_motion_time s"
    "start_time s' = start_time s" "timestamps s' = timestamps s" "temp_data s' = temp_data s"
    "light_data s' = light_data s" "motion_data s' = motion_data s" "shown s' = shown s"
    "status_ok (thermostat_1 s')"
    "target_temperature (thermostat_1 s') = target_temperature (thermostat_1 s)"
  using assms rule_thermostat_control_cases [of s] by (auto simp: status_ok_def)

lemma rule_lighting_control_frame:
  assumes "rule_lighting_control now s = Inr s'"
  shows "thermostat_1 s' = thermostat_1 s" "temp_sensor_1 s' = temp_sensor_1 s"
    "light_sensor_1 s' = light_sensor_1 s" "motion_sensor_1 s' = motion_sensor_1 s"
    "running s' = running s"
    "start_time s' = start_time s" "timestamps s' = timestamps s" "temp_data s' = temp_data s"
    "light_data s' = light_data s" "motion_data s' = motion_data s" "shown s' = shown s"
    "status_ok (light_1 s) \<Longrightarrow> status_ok (light_1 s')"
  using assms rule_lighting_control_cases [of now s] by (auto simp: status_ok_def)

lemma rule_lighting_control_Inr:
  assumes "value (light_sensor_1 s) = Some lux"
  shows "\<exists>s'. rule_lighting_control now s = Inr s'"
  using assms
  by (simp add: rule_lighting_control_def Let_def turn_on_eq turn_off_eq set_brightness_70)

lemma process_sensor_data_eq:
  "process_sensor_data inp s =
     (case rule_thermostat_control (after_reading inp s) of
        Inl e \<Rightarrow> Inl e
      | Inr s5 \<Rightarrow> rule_lighting_control (clock_rule inp) s5)"
  by (simp add: process_sensor_data_def after_reading_def Let_def print_lines_def read_value_def)

text \<open>A tick never raises: the sensors are read before the rules look at them.\<close>

lemma process_sensor_data_steps:
  "\<exists>s5 s'. rule_thermostat_control (after_reading inp s) = Inr s5
      \<and> rule_lighting_control (clock_rule inp) s5 = Inr s'
      \<and> process_sensor_data inp s = Inr s'"
proof -
  have t: "value (temp_sensor_1 (after_reading inp s)) = Some (temp_sample inp)"
    by (simp add: after_reading_def)
  obtain s5 where s5: "rule_thermostat_control (after_reading inp s) = Inr s5"
    by (simp add: rule_thermostat_control_Some [OF t])
  have "value (light_sensor_1 s5) = Some (lux_sample inp)"
    by (simp add: rule_thermostat_control_frame(3) [OF s5] after_reading_def)
  from rule_lighting_control_Inr [OF this]
  obtain s' where s': "rule_lighting_control (clock_rule inp) s5 = Inr s'" by blast
  show ?thesis using s5 s' by (simp add: process_sensor_data_eq)
qed

lemma process_sensor_data_total: "\<exists>s'. process_sensor_data inp s = Inr s'"
  using process_sensor_data_steps [of inp s] by blast

lemma process_sensor_data_frame:
  assumes "process_sensor_data inp s = Inr s'"
  shows "timestamps s' = timestamps s @ [py_round2 (clock_tick inp - start_time s)]"
    "temp_data s' = temp_data s @ [temp_sample inp]"
    "light_data s' = light_data s @ [lux_sample inp]"
    "motion_data s' = motion_data s @ [if motion_sample inp then 1 else 0]"
    "start_time s' = start_time s" "running s' = running s" "shown s' = shown s"
    "devices_ok s \<Longrightarrow> devices_ok s'"
proof -
  obtain s5 where s5: "rule_thermostat_control (after_reading inp s) = Inr s5"
    and s': "rule_lighting_control (clock_rule inp) s5 = Inr s'"
    using process_sensor_data_steps [of inp s] assms by auto
  note f5 = rule_thermostat_control_frame [OF s5]
  note f' = rule_lighting_control_frame [OF s']
  show "timestamps s' = timestamps s @ [py_round2 (clock_tick inp - start_time s)]"
    by (simp add: f'(7) f5(8) after_reading_def)
  show "temp_data s' = temp_data s @ [temp_sample inp]"
    by (simp add: f'(8) f5(9) after_reading_def)
  show "light_data s' = light_data s @ [lux_sample inp]"
    by (simp add: f'(9) f5(10) after_reading_def)
  show "motion_data s' = motion_data s @ [if motion_sample inp then 1 else 0]"
    by (simp add: f'(10) f5(11) after_reading_def)
  show "start_time s' = start_time s"
    by (simp add: f'(6) f5(7) after_reading_def)
  show "running s' = running s"
    by (simp add: f'(5) f5(5) after_reading_def)
  show "shown s' = shown s"
    by (simp add: f'(11) f5(12) after_reading_def)
  show "devices_ok s'" if "devices_ok s"
  proof -
    have "status_ok (light_1 s5)"
      using that by (simp add: f5(1) after_reading_def devices_ok_def)
    then have "status_ok (light_1 s')" by (rule f'(12))
    moreover have "status_ok (thermostat_1 s')" by (simp add: f'(1) f5(13))
    ultimately show ?thesis by (simp add: devices_ok_def)
  qed
qed

lemma stop_monitoring_eq:
  "stop_monitoring s =
     s\<lparr>running := False,
       stdout := stdout s @ [StoppingSystem, GeneratingVisualization],
       shown := shown s @ [Figure (timestamps s) (temp_data s) (light_data s) (motion_data s)]\<rparr>"
  by (simp add: stop_monitoring_def plot_data_def print_lines_def Let_def)

section \<open>Steps and runs of the program\<close>

lemma ticks_of_append: "ticks_of (as @ bs) = ticks_of as @ ticks_of bs"
  by (induction as rule: ticks_of.induct) auto

lemma run_append:
  "run (as @ bs) c = (case run as c of None \<Rightarrow> None | Some c' \<Rightarrow> run bs c')"
  by (induction as arbitrary: c) (auto split: option.splits)

lemma main_step_Some:
  assumes "main_step c = Some c'"
  shows "main_at c = M_start_thread
           \<and> c' = c\<lparr>main_at := M_print_running, loop_at := L_print_starting\<rparr>
       \<or> main_at c = M_print_running
           \<and> c' = c\<lparr>main_at := M_wait, system := print_lines [SystemIsRunning] (system c)\<rparr>
       \<or> main_at c = M_wait \<and> c' = c
       \<or> main_at c = M_stop_monitoring
           \<and> c' = c\<lparr>main_at := M_join, system := stop_monitoring (system c)\<rparr>
       \<or> main_at c = M_join \<and> (loop_at c = L_exited \<or> (\<exists>e. loop_at c = L_raised e))
           \<and> c' = c\<lparr>main_at := M_print_stopped\<rparr>
       \<or> main_at c = M_print_stopped
           \<and> c' = c\<lparr>main_at := M_done, system := print_lines [StoppedGracefully] (system c)\<rparr>"
proof (cases "main_at c")
  case M_join
  then show ?thesis using assms by (cases "loop_at c") auto
qed (use assms in auto)

lemma keyboard_interrupt_Some:
  assumes "keyboard_interrupt c = Some c'"
  shows "(main_at c = M_print_running \<or> main_at c = M_wait)
       \<and> c' = c\<lparr>main_at := M_stop_monitoring\<rparr>"
  using assms by (cases "main_at c") auto

lemma start_monitoring_step_None:
  assumes "start_monitoring_step None c = Some c'"
  shows "main_at c \<noteq> M_done \<and>
      (loop_at c = L_print_starting
         \<and> c' = c\<lparr>loop_at := L_set_running, system := print_lines [StartingSystem] (system c)\<rparr>
       \<or> loop_at c = L_set_running
         \<and> c' = c\<lparr>loop_at := L_while, system := (system c)\<lparr>running := True\<rparr>\<rparr>
       \<or> loop_at c = L_while
         \<and> c' = c\<lparr>loop_at := (if running (system c) then L_process else L_exited)\<rparr>
       \<or> loop_at c = L_sleep \<and> c' = c\<lparr>loop_at := L_while\<rparr>)"
  using assms by (cases "loop_at c") (auto split: if_splits)

lemma start_monitoring_step_Some:
  assumes "start_monitoring_step (Some inp) c = Some c'"
  shows "\<exists>s'. process_sensor_data inp (system c) = Inr s'
           \<and> c' = c\<lparr>loop_at := L_sleep, system := s'\<rparr>
           \<and> loop_at c = L_process \<and> main_at c \<noteq> M_done"
proof -
  obtain s' where s': "process_sensor_data inp (system c) = Inr s'"
    using process_sensor_data_total by blast
  show ?thesis using assms s'
    by (auto split: loop_pc.splits if_splits)
qed

lemma case_option_SomeD:
  "(case x of None \<Rightarrow> False | Some c \<Rightarrow> P c) \<Longrightarrow> \<exists>c. x = Some c \<and> P c"
  by (cases x) auto

lemma run_append_Some:
  "run (as @ bs) c = Some c' \<Longrightarrow> \<exists>c1. run as c = Some c1 \<and> run bs c1 = Some c'"
  by (simp add: run_append split: option.splits)

lemma step_series:
  assumes "step a c = Some c'"
  shows "timestamps (system c') =
           timestamps (system c)
             @ map (\<lambda>i. py_round2 (clock_tick i - start_time (system c))) (ticks_of [a])
     \<and> temp_data (system c') = temp_data (system c) @ map temp_sample (ticks_of [a])
     \<and> light_data (system c') = light_data (system c) @ map lux_sample (ticks_of [a])
     \<and> motion_data (system c') =
         motion_data (system c) @ map (\<lambda>i. if motion_sample i then 1 else 0) (ticks_of [a])
     \<and> start_time (system c') = start_time (system c)"
proof (cases a)
  case MainStep
  with assms have "main_step c = Some c'" by simp
  from main_step_Some [OF this] show ?thesis
    using MainStep
    by (elim disjE conjE exE) (simp_all add: stop_monitoring_eq print_lines_def)
next
  case KeyboardInterrupt
  with assms have "keyboard_interrupt c = Some c'" by simp
  from keyboard_interrupt_Some [OF this] show ?thesis
    using KeyboardInterrupt by simp
next
  case LoopStep
  with assms have "start_monitoring_step None c = Some c'" by simp
  from start_monitoring_step_None [OF this] show ?thesis
    using LoopStep by (elim disjE conjE) (simp_all add: print_lines_def)
next
  case (LoopTick inp)
  with assms have "start_monitoring_step (Some inp) c = Some c'" by simp
  from start_monitoring_step_Some [OF this]
  obtain s' where s': "process_sensor_data inp (system c) = Inr s'"
    and c': "c' = c\<lparr>loop_at := L_sleep, system := s'\<rparr>" by blast
  show ?thesis using LoopTick process_sensor_data_frame(1-5) [OF s'] by (simp add: c')
qed

lemma run_series:
  assumes "run sched c = Some c'"
  shows "timestamps (system c') =
           timestamps (system c)
             @ map (\<lambda>i. py_round2 (clock_tick i - start_time (system c))) (ticks_of sched)
     \<and> temp_data (system c') = temp_data (system c) @ map temp_sample (ticks_of sched)
     \<and> light_data (system c') = light_data (system c) @ map lux_sample (ticks_of sched)
     \<and> motion_data (system c') =
         motion_data (system c) @ map (\<lambda>i. if motion_sample i then 1 else 0) (ticks_of sched)
     \<and> start_time (system c') = start_time (system c)"
  using assms
proof (induction sched arbitrary: c)
  case Nil
  then show ?case by simp
next
  case (Cons a sched)
  from Cons.prems obtain c1 where a: "step a c = Some c1" and r: "run sched c1 = Some c'"
    by (auto split: option.splits)
  have t: "ticks_of (a # sched) = ticks_of [a] @ ticks_of sched"
    using ticks_of_append [of "[a]" sched] by simp
  show ?case
    using Cons.IH [OF r] step_series [OF a] unfolding t by simp
qed

lemma round_half_even_mono:
  assumes "x \<le> y"
  shows "round_half_even x \<le> round_half_even y"
proof (cases "\<lfloor>x\<rfloor> = \<lfloor>y\<rfloor>")
  case True
  then show ?thesis using assms by (auto simp: round_half_even_def Let_def)
next
  case False
  with assms have lt: "\<lfloor>x\<rfloor> < \<lfloor>y\<rfloor>" using floor_mono [OF assms] by linarith
  have "round_half_even x \<le> \<lfloor>x\<rfloor> + 1" by (auto simp: round_half_even_def Let_def)
  moreover have "\<lfloor>y\<rfloor> \<le> round_half_even y" by (auto simp: round_half_even_def Let_def)
  ultimately show ?thesis using lt by linarith
qed

lemma py_round2_mono: "x \<le> y \<Longrightarrow> py_round2 x \<le> py_round2 y"
  unfolding py_round2_def
  by (intro divide_right_mono) (auto intro!: round_half_even_mono)

lemma sorted_map_py_round2:
  assumes "sorted (map clock_tick is)"
  shows "sorted (map (\<lambda>i. py_round2 (clock_tick i - t0)) is)"
  using assms
  by (induction "is") (auto intro!: py_round2_mono)

text \<open>
  C7 (as the code has it). For every run of the program from its start, whatever the
  schedule: each of the four recorded series has one entry per tick executed, and however
  the run goes on, the series recorded so far stay as they are at the front of the later
  series. The timestamp is \<^verbatim>\<open>round(time.time() - self.start_time, 2)\<close>, a reading of the
  wall clock: the recorded timestamps do not decrease provided the clock readings of the
  successive ticks do not decrease.
\<close>

theorem recorded_series_per_tick:
  assumes "run sched (program_init now1 now2) = Some c" and "run rest c = Some c'"
  shows "length (timestamps (system c)) = length (ticks_of sched)
       \<and> length (temp_data (system c)) = length (ticks_of sched)
       \<and> length (light_data (system c)) = length (ticks_of sched)
       \<and> length (motion_data (system c)) = length (ticks_of sched)
       \<and> (sorted (map clock_tick (ticks_of sched)) \<longrightarrow> sorted (timestamps (system c)))
       \<and> prefix (timestamps (system c)) (timestamps (system c'))
       \<and> prefix (temp_data (system c)) (temp_data (system c'))
       \<and> prefix (light_data (system c)) (light_data (system c'))
       \<and> prefix (motion_data (system c)) (motion_data (system c'))"
proof -
  have init: "timestamps (system (program_init now1 now2)) = []"
    "temp_data (system (program_init now1 now2)) = []"
    "light_data (system (program_init now1 now2)) = []"
    "motion_data (system (program_init now1 now2)) = []"
    by (simp_all add: program_init_def HomeAutomationSystem_init_def)
  note a = run_series [OF assms(1), unfolded init, simplified]
  note b = run_series [OF assms(2)]
  show ?thesis
    using a b by (simp add: sorted_map_py_round2)
qed

theorem recorded_series_per_tick_witness:
  "\<exists>c c'. run [MainStep, LoopStep, LoopStep, MainStep, LoopStep, LoopTick tick_a, LoopStep,
              LoopStep, LoopTick tick_b, MainStep, LoopStep, LoopStep] (program_init 99 99.5) = Some c
     \<and> run [LoopTick tick_c, KeyboardInterrupt, MainStep, LoopStep, LoopStep, MainStep, MainStep] c
         = Some c'
     \<and> sorted (map clock_tick [tick_a, tick_b])
     \<and> length (timestamps (system c)) = 2
     \<and> length (temp_data (system c)) = 2
     \<and> length (light_data (system c)) = 2
     \<and> length (motion_data (system c)) = 2
     \<and> sorted (timestamps (system c))
     \<and> prefix (timestamps (system c)) (timestamps (system c'))
     \<and> prefix (temp_data (system c)) (temp_data (system c'))
     \<and> prefix (light_data (system c)) (light_data (system c'))
     \<and> prefix (motion_data (system c)) (motion_data (system c'))"
proof -
  let ?s1 = "[MainStep, LoopStep, LoopStep, MainStep, LoopStep, LoopTick tick_a, LoopStep,
              LoopStep, LoopTick tick_b, MainStep, LoopStep, LoopStep]"
  let ?s2 = "[LoopTick tick_c, KeyboardInterrupt, MainStep, LoopStep, LoopStep, MainStep, MainStep]"
  have "case run (?s1 @ ?s2) (program_init 99 99.5) of None \<Rightarrow> False | Some c \<Rightarrow> True"
    by code_simp
  from case_option_SomeD [OF this]
  obtain c' where "run (?s1 @ ?s2) (program_init 99 99.5) = Some c'" by blast
  from run_append_Some [OF this]
  obtain c where r1: "run ?s1 (program_init 99 99.5) = Some c" and r2: "run ?s2 c = Some c'"
    by blast
  have t: "ticks_of ?s1 = [tick_a, tick_b]" by simp
  have s: "sorted (map clock_tick [tick_a, tick_b])" by (simp add: tick_a_def tick_b_def)
  note th = recorded_series_per_tick [OF r1 r2, unfolded t]
  from th s have facts: "length (timestamps (system c)) = 2
     \<and> length (temp_data (system c)) = 2
     \<and> length (light_data (system c)) = 2
     \<and> length (motion_data (system c)) = 2
     \<and> sorted (timestamps (system c))
     \<and> prefix (timestamps (system c)) (timestamps (system c'))
     \<and> prefix (temp_data (system c)) (temp_data (system c'))
     \<and> prefix (light_data (system c)) (light_data (system c'))
     \<and> prefix (motion_data (system c)) (motion_data (system c'))"
    by simp
  from r1 r2 s facts show ?thesis by blast
qed

text \<open>
  A run in which the wall clock is set back between two ticks: the first tick reads 105,
  the second 100, with \<^verbatim>\<open>start_time\<close> 99.5. The recorded timestamps are 5.5 and then
  0.5: they decrease.
\<close>

theorem recorded_timestamps_decrease_counterexample:
  "case run [MainStep, LoopStep, LoopStep, MainStep, LoopStep, LoopTick tick_b, LoopStep,
             LoopStep, LoopTick tick_a] (program_init 99 99.5) of
     None \<Rightarrow> False
   | Some c \<Rightarrow>
       timestamps (system c) = [11 / 2, 1 / 2]
       \<and> length (timestamps (system c)) = 2
       \<and> \<not> sorted (timestamps (system c))"
  by code_simp

section \<open>Shutdown\<close>

lemma shutdown_inv_step:
  assumes "shutdown_inv sched c" and "step a c = Some c'"
  shows "shutdown_inv (sched @ [a]) c'"
proof (cases a)
  case MainStep
  with assms(2) have "main_step c = Some c'" by simp
  from main_step_Some [OF this] show ?thesis
    using assms(1) MainStep
    by (elim disjE conjE exE) (simp_all add: shutdown_inv_def stop_monitoring_eq print_lines_def)
next
  case KeyboardInterrupt
  with assms(2) have "keyboard_interrupt c = Some c'" by simp
  from keyboard_interrupt_Some [OF this] show ?thesis
    using assms(1) KeyboardInterrupt
    by (elim disjE conjE) (simp_all add: shutdown_inv_def)
next
  case LoopStep
  with assms(2) have "start_monitoring_step None c = Some c'" by simp
  from start_monitoring_step_None [OF this] show ?thesis
    using assms(1) LoopStep
    by (elim disjE conjE) (simp_all add: shutdown_inv_def print_lines_def)
next
  case (LoopTick inp)
  with assms have "start_monitoring_step (Some inp) c = Some c'" by simp
  from start_monitoring_step_Some [OF this]
  obtain s' where s': "process_sensor_data inp (system c) = Inr s'"
    and c': "c' = c\<lparr>loop_at := L_sleep, system := s'\<rparr>"
    and at: "loop_at c = L_process" "main_at c \<noteq> M_done" by blast
  show ?thesis using assms(1) LoopTick at process_sensor_data_frame(7) [OF s']
    by (simp add: shutdown_inv_def c')
qed

lemma shutdown_inv_run:
  assumes "run sched (program_init now1 now2) = Some c"
  shows "shutdown_inv sched c"
  using assms
proof (induction sched arbitrary: c rule: rev_induct)
  case Nil
  then show ?case
    by (auto simp: shutdown_inv_def program_init_def HomeAutomationSystem_init_def)
next
  case (snoc a sched)
  from run_append_Some [OF snoc.prems]
  obtain c1 where r: "run sched (program_init now1 now2) = Some c1"
    and a: "step a c1 = Some c"
    by (auto split: option.splits)
  show ?case by (rule shutdown_inv_step [OF snoc.IH [OF r] a])
qed

lemma devices_ok_step:
  assumes "devices_ok (system c)" and "step a c = Some c'"
  shows "devices_ok (system c')"
proof (cases a)
  case MainStep
  with assms(2) have "main_step c = Some c'" by simp
  from main_step_Some [OF this] show ?thesis
    using assms(1)
    by (elim disjE conjE exE) (simp_all add: devices_ok_def stop_monitoring_eq print_lines_def)
next
  case KeyboardInterrupt
  with assms(2) have "keyboard_interrupt c = Some c'" by simp
  from keyboard_interrupt_Some [OF this] show ?thesis
    using assms(1) by simp
next
  case LoopStep
  with assms(2) have "start_monitoring_step None c = Some c'" by simp
  from start_monitoring_step_None [OF this] show ?thesis
    using assms(1)
    by (elim disjE conjE) (simp_all add: devices_ok_def print_lines_def)
next
  case (LoopTick inp)
  with assms have "start_monitoring_step (Some inp) c = Some c'" by simp
  from start_monitoring_step_Some [OF this]
  obtain s' where s': "process_sensor_data inp (system c) = Inr s'"
    and c': "c' = c\<lparr>loop_at := L_sleep, system := s'\<rparr>" by blast
  show ?thesis using process_sensor_data_frame(8) [OF s' assms(1)] by (simp add: c')
qed

lemma devices_ok_run:
  assumes "run sched c = Some c'" and "devices_ok (system c)"
  shows "devices_ok (system c')"
  using assms
proof (induction sched arbitrary: c)
  case Nil
  then show ?case by simp
next
  case (Cons a sched)
  from Cons.prems(1) obtain c1 where a: "step a c = Some c1" and r: "run sched c1 = Some c'"
    by (auto split: option.splits)
  show ?case by (rule Cons.IH [OF r devices_ok_step [OF Cons.prems(2) a]])
qed

lemma devices_ok_init: "devices_ok (HomeAutomationSystem_init now1 now2)"
  by (simp add: devices_ok_def status_ok_def fixture_defs)

text \<open>
  C5 (as the code has it). \<^verbatim>\<open>stop_monitoring\<close> clears \<^verbatim>\<open>running\<close> and changes no other
  field of the system, but it does print and it does call \<^verbatim>\<open>plot_data\<close>: every call
  shows one more figure of the series recorded so far. A second call leaves the system's
  fields as the first left them and prints and shows the figure again.
\<close>

theorem stop_monitoring_clears_running_and_plots:
  "stop_monitoring s =
     s\<lparr>running := False,
       stdout := stdout s @ [StoppingSystem, GeneratingVisualization],
       shown := shown s @ [Figure (timestamps s) (temp_data s) (light_data s) (motion_data s)]\<rparr>
   \<and> running (stop_monitoring s) = False
   \<and> stop_monitoring (stop_monitoring s) =
       (stop_monitoring s)
         \<lparr>stdout := stdout (stop_monitoring s) @ [StoppingSystem, GeneratingVisualization],
          shown := shown (stop_monitoring s)
                     @ [Figure (timestamps s) (temp_data s) (light_data s) (motion_data s)]\<rparr>
   \<and> length (shown (stop_monitoring (stop_monitoring s))) = length (shown s) + 2"
  by (simp add: stop_monitoring_eq)

text \<open>
  On a fresh system one call shows a figure, and a second call shows a second one: the
  second call is not a no-op.
\<close>

theorem stop_monitoring_plots_counterexample:
  "shown (HomeAutomationSystem_init 0 0) = []
   \<and> shown (stop_monitoring (HomeAutomationSystem_init 0 0)) = [Figure [] [] [] []]
   \<and> shown (stop_monitoring (stop_monitoring (HomeAutomationSystem_init 0 0)))
       = [Figure [] [] [] [], Figure [] [] [] []]
   \<and> stop_monitoring (stop_monitoring (HomeAutomationSystem_init 0 0))
       \<noteq> stop_monitoring (HomeAutomationSystem_init 0 0)"
proof -
  have a: "shown (HomeAutomationSystem_init 0 0) = []"
    and b: "shown (stop_monitoring (HomeAutomationSystem_init 0 0)) = [Figure [] [] [] []]"
    and c: "shown (stop_monitoring (stop_monitoring (HomeAutomationSystem_init 0 0)))
       = [Figure [] [] [] [], Figure [] [] [] []]"
    by (simp_all add: stop_monitoring_eq HomeAutomationSystem_init_def)
  have "stop_monitoring (stop_monitoring (HomeAutomationSystem_init 0 0))
       \<noteq> stop_monitoring (HomeAutomationSystem_init 0 0)"
  proof
    assume "stop_monitoring (stop_monitoring (HomeAutomationSystem_init 0 0))
       = stop_monitoring (HomeAutomationSystem_init 0 0)"
    then have "shown (stop_monitoring (stop_monitoring (HomeAutomationSystem_init 0 0)))
       = shown (stop_monitoring (HomeAutomationSystem_init 0 0))" by simp
    then show False unfolding b c by simp
  qed
  with a b c show ?thesis by simp
qed

text \<open>
  C6 (as the code has it). In every run of the program from its start, the figure is shown
  exactly once, by \<^verbatim>\<open>stop_monitoring\<close> in the interrupt handler: no figure has been shown
  before the handler has called it, and exactly one from then on, so the figure is already
  shown while the main thread still waits in \<^verbatim>\<open>join\<close>. The interrupt is taken at most once,
  and the main thread gets past \<^verbatim>\<open>join\<close> only when the monitoring thread has left its loop.
\<close>

theorem render_once_inside_stop:
  assumes "run sched (program_init now1 now2) = Some c"
  shows "length (shown (system c)) = (if main_at c \<in> {M_join, M_print_stopped, M_done} then 1 else 0)
       \<and> count_list sched KeyboardInterrupt =
           (if main_at c \<in> {M_start_thread, M_print_running, M_wait} then 0 else 1)
       \<and> (main_at c \<in> {M_print_stopped, M_done} \<longrightarrow> loop_at c = L_exited)"
  using shutdown_inv_run [OF assms] by (simp add: shutdown_inv_def)

theorem render_once_inside_stop_witness:
  "\<exists>c. run [MainStep, LoopStep, LoopStep, MainStep, LoopStep, LoopTick tick_a, LoopStep, LoopStep,
            LoopTick tick_b, KeyboardInterrupt, LoopStep, MainStep, LoopStep, MainStep, MainStep]
          (program_init 99 99.5) = Some c
     \<and> main_at c = M_done \<and> loop_at c = L_exited
     \<and> length (shown (system c)) = 1
     \<and> count_list [MainStep, LoopStep, LoopStep, MainStep, LoopStep, LoopTick tick_a, LoopStep,
            LoopStep, LoopTick tick_b, KeyboardInterrupt, LoopStep, MainStep, LoopStep, MainStep,
            MainStep] KeyboardInterrupt = 1"
proof -
  let ?s = "[MainStep, LoopStep, LoopStep, MainStep, LoopStep, LoopTick tick_a, LoopStep, LoopStep,
            LoopTick tick_b, KeyboardInterrupt, LoopStep, MainStep, LoopStep, MainStep, MainStep]"
  have "case run ?s (program_init 99 99.5) of None \<Rightarrow> False | Some c \<Rightarrow> main_at c = M_done"
    by code_simp
  from case_option_SomeD [OF this]
  obtain c where r: "run ?s (program_init 99 99.5) = Some c" and d: "main_at c = M_done"
    by blast
  note th = render_once_inside_stop [OF r]
  from th d have "loop_at c = L_exited \<and> length (shown (system c)) = 1
      \<and> count_list ?s KeyboardInterrupt = 1"
    by simp
  with r d show ?thesis by blast
qed

text \<open>
  A run in which the figure is shown before the loop has exited: the interrupt arrives just
  after the monitoring thread has found \<^verbatim>\<open>self.running\<close> true. The handler's
  \<^verbatim>\<open>stop_monitoring()\<close> shows the (empty) figure; \<^verbatim>\<open>join\<close> cannot return yet; the
  monitoring thread then runs its tick and records a row the figure does not have.
\<close>

theorem render_before_join_counterexample:
  "case run [MainStep, LoopStep, LoopStep, MainStep, LoopStep, KeyboardInterrupt, MainStep]
          (program_init 99 99.5) of
     None \<Rightarrow> False
   | Some c \<Rightarrow>
       main_at c = M_join \<and> loop_at c = L_process
       \<and> shown (system c) = [Figure [] [] [] []]
       \<and> (case step MainStep c of None \<Rightarrow> True | Some c' \<Rightarrow> False)
       \<and> (case step (LoopTick tick_a) c of
             None \<Rightarrow> False
           | Some c' \<Rightarrow>
               main_at c' = M_join \<and> loop_at c' = L_sleep
               \<and> timestamps (system c') = [1 / 2]
               \<and> shown (system c') = [Figure [] [] [] []])"
  by code_simp

section \<open>The status domain\<close>

text \<open>
  C9. Assigning a status other than \<^verbatim>\<open>"on"\<close> or \<^verbatim>\<open>"off"\<close> returns the device as it was
  and prints nothing. So a status that is on or off stays on or off under every operation:
  the status setter, \<^verbatim>\<open>turn_on\<close>, \<^verbatim>\<open>turn_off\<close>, the two tunable setters, both rules, a
  whole tick, \<^verbatim>\<open>plot_data\<close> and \<^verbatim>\<open>stop_monitoring\<close>. Lights and thermostats are
  constructed off, so in every state the program reaches both devices are on or off.
\<close>

theorem status_stays_on_or_off:
  "(new_status \<noteq> ''on'' \<and> new_status \<noteq> ''off'' \<longrightarrow> set_status new_status d = (d, []))
   \<and> (status_ok d \<longrightarrow> status_ok (fst (set_status new_status d)))
   \<and> status_ok (fst (turn_on d)) \<and> status_ok (fst (turn_off d))
   \<and> status (fst (set_brightness level l)) = status l
   \<and> status (fst (set_target_temperature temp th)) = status th
   \<and> status_ok (SmartLight_init did nm level) \<and> status_ok (SmartThermostat_init did nm temp)
   \<and> devices_ok (HomeAutomationSystem_init now1 now2)
   \<and> (devices_ok s \<longrightarrow>
         (\<forall>s'. rule_thermostat_control s = Inr s' \<longrightarrow> devices_ok s')
       \<and> (\<forall>s'. rule_lighting_control now s = Inr s' \<longrightarrow> devices_ok s')
       \<and> (\<forall>s'. process_sensor_data inp s = Inr s' \<longrightarrow> devices_ok s')
       \<and> devices_ok (plot_data s) \<and> devices_ok (stop_monitoring s))
   \<and> (\<forall>c. run sched (program_init now1 now2) = Some c \<longrightarrow> devices_ok (system c))"
proof -
  have 1: "new_status \<noteq> ''on'' \<and> new_status \<noteq> ''off'' \<longrightarrow> set_status new_status d = (d, [])"
    by (simp add: set_status_def)
  have 2: "status_ok d \<longrightarrow> status_ok (fst (set_status new_status d))"
    by (simp add: set_status_def status_ok_def)
  have 3: "status_ok (fst (turn_on d))" "status_ok (fst (turn_off d))"
    by (simp_all add: turn_on_eq turn_off_eq status_ok_def)
  have 4: "status (fst (set_brightness level l)) = status l"
    "status (fst (set_target_temperature temp th)) = status th"
    by (simp_all add: set_brightness_def set_target_temperature_def)
  have 5: "status_ok (SmartLight_init did nm level)" "status_ok (SmartThermostat_init did nm temp)"
    by (simp_all add: status_ok_def fixture_defs)
  have 6: "devices_ok s'" if "devices_ok s" "rule_thermostat_control s = Inr s'" for s'
    using that rule_thermostat_control_frame(1,13) [OF that(2)] by (simp add: devices_ok_def)
  have 7: "devices_ok s'" if "devices_ok s" "rule_lighting_control now s = Inr s'" for s'
    using that rule_lighting_control_frame(1,12) [OF that(2)] by (simp add: devices_ok_def)
  have 8: "devices_ok s'" if "devices_ok s" "process_sensor_data inp s = Inr s'" for s'
    using that process_sensor_data_frame(8) by blast
  have 9: "devices_ok (plot_data s)" "devices_ok (stop_monitoring s)" if "devices_ok s"
    using that by (simp_all add: devices_ok_def stop_monitoring_eq plot_data_def print_lines_def Let_def)
  have 10: "devices_ok (system c)" if "run sched (program_init now1 now2) = Some c" for c
    using devices_ok_run [OF that] devices_ok_init by (simp add: program_init_def)
  show ?thesis
    using 1 2 3 4 5 6 7 8 9 10 devices_ok_init by blast
qed

theorem status_stays_on_or_off_witness:
  "set_status ''dim'' (SmartLight_init ''light_1'' ''Living Room Light'' 50)
      = (SmartLight_init ''light_1'' ''Living Room Light'' 50, [])
   \<and> status_ok (SmartLight_init ''light_1'' ''Living Room Light'' 50)
   \<and> status_ok (fst (set_status ''dim'' (SmartLight_init ''light_1'' ''Living Room Light'' 50)))
   \<and> status_ok (fst (set_status ''on'' (SmartLight_init ''light_1'' ''Living Room Light'' 50)))
   \<and> devices_ok (HomeAutomationSystem_init 99 99.5)
   \<and> (\<exists>s'. process_sensor_data tick_a (HomeAutomationSystem_init 99 99.5) = Inr s'
         \<and> devices_ok s')
   \<and> devices_ok (stop_monitoring (HomeAutomationSystem_init 99 99.5))
   \<and> (\<exists>c. run [MainStep, LoopStep, LoopStep, MainStep, LoopStep, LoopTick tick_a, LoopStep,
              LoopStep, LoopTick tick_c] (program_init 99 99.5) = Some c
         \<and> devices_ok (system c))"
proof -
  let ?l = "SmartLight_init ''light_1'' ''Living Room Light'' 50"
  let ?s = "HomeAutomationSystem_init 99 99.5"
  let ?sched = "[MainStep, LoopStep, LoopStep, MainStep, LoopStep, LoopTick tick_a, LoopStep,
              LoopStep, LoopTick tick_c]"
  note a = status_stays_on_or_off [of "''dim''" ?l 50 ?l 24
      "SmartThermostat_init ''thermostat_1'' ''Main Thermostat'' 24"
      "''light_1''" "''Living Room Light''" 99 "99.5" ?s 100 tick_a ?sched]
  note b = status_stays_on_or_off [of "''on''" ?l 50 ?l 24
      "SmartThermostat_init ''thermostat_1'' ''Main Thermostat'' 24"
      "''light_1''" "''Living Room Light''" 99 "99.5" ?s 100 tick_a ?sched]
  have ok: "status_ok ?l" and dok: "devices_ok ?s" using a by blast+
  have 1: "set_status ''dim'' ?l = (?l, [])" using a by simp
  have 2: "status_ok (fst (set_status ''dim'' ?l))" using a ok by blast
  have 3: "status_ok (fst (set_status ''on'' ?l))" using b ok by blast
  obtain s' where s': "process_sensor_data tick_a ?s = Inr s'"
    using process_sensor_data_total by blast
  have 4: "devices_ok s'" using a dok s' by blast
  have 5: "devices_ok (stop_monitoring ?s)" using a dok by blast
  have "case run ?sched (program_init 99 99.5) of None \<Rightarrow> False | Some c \<Rightarrow> True"
    by code_simp
  from case_option_SomeD [OF this]
  obtain c where r: "run ?sched (program_init 99 99.5) = Some c" by blast
  have 6: "devices_ok (system c)" using a r by blast
  from ok dok 1 2 3 s' 4 5 r 6 show ?thesis by blast
qed

end
